theory Spec2Isabelle
  imports Main "HOL-Library.Multiset" "HOL-Library.Char_ord" "HOL-Library.List_Lexorder"
begin

section \<open>Data model\<close>

text \<open>
  Identifiers are MongoDB ObjectIds. The code compares them only through
  \<^verbatim>\<open>toString()\<close>, so an identifier is modelled by that string.
\<close>

type_synonym oid = string

text \<open>
  \<^verbatim>\<open>models/users/User.ts\<close>: the fields the controllers read or write, with the
  \<^verbatim>\<open>_id\<close> of the stored document. For a request body, \<open>u_id\<close> is the identifier
  the document gets when it is inserted. The remaining profile fields (photo, biography,
  dates, location, role) are carried along unchanged by every function below and are
  left out.
\<close>

record user =
  u_id :: oid
  username :: string
  password :: string
  firstName :: string
  lastName :: string
  email :: string

text \<open>
  \<^verbatim>\<open>models/tuits/Tuit.ts\<close>. \<open>postedBy\<close> is \<^verbatim>\<open>User | null\<close>; the code reads it
  only as \<^verbatim>\<open>postedBy._id.toString()\<close>, so the reference is modelled by the author's
  identifier, \<open>None\<close> being \<^verbatim>\<open>null\<close>.
\<close>

record tuit =
  t_id :: oid
  t_tuit :: string
  postedOn :: int
  postedBy :: "oid option"
  stats :: "(string \<times> int) list"

text \<open>
  A Like, a Dislike or a Bookmark: the user reference and the post reference
  (\<^verbatim>\<open>l.tuit\<close> in TuitService).
\<close>

record join_record =
  j_user :: oid
  j_tuit :: oid

text \<open>
  The plain object built by \<^verbatim>\<open>t.toObject()\<close> and the object spreads in TuitService:
  the fields of the tuit and the four viewer-relative keys. A key that was never added
  is \<open>None\<close>.
\<close>

record decorated = tuit +
  likedByMe :: "bool option"
  dislikedByMe :: "bool option"
  bookmarkedByMe :: "bool option"
  ownedByMe :: "bool option"

record store =
  db_users :: "user list"
  db_tuits :: "tuit list"
  db_likes :: "join_record list"
  db_dislikes :: "join_record list"
  db_bookmarks :: "join_record list"

datatype error = StoreFailure | TypeError

section \<open>Data access objects\<close>

text \<open>
  The calls the modelled controllers and TuitService make on the DAOs. A value of type
  \<open>faults\<close> tells which calls the record store fails.
\<close>

datatype dao_call =
    FindUserLikesTuit oid oid
  | FindUserDislikesTuit oid oid
  | FindUserBookmarksTuit oid oid
  | UserBookmarksTuit oid oid
  | UserUnbookmarksTuit oid oid
  | DeleteAllTuitsByUser oid
  | DeleteAllBookmarksByUser oid
  | DeleteAllDislikesByUser oid
  | DeleteAllLikesByUser oid
  | DeleteUser oid
  | FindUserByUsername string
  | FindUserById oid
  | CreateUser user

type_synonym faults = "dao_call \<Rightarrow> bool"

definition no_faults :: faults where
  "no_faults = (\<lambda>c. False)"

type_synonym 'a dao = "store \<Rightarrow> (error + 'a) \<times> store"

definition find_join :: "oid \<Rightarrow> oid \<Rightarrow> join_record list \<Rightarrow> join_record option" where
  "find_join uid tid js = find (\<lambda>j. j_user j = uid \<and> j_tuit j = tid) js"

text \<open>
  Modelled from the spec: \<^verbatim>\<open>daos/LikeDao\<close>, \<^verbatim>\<open>daos/DislikeDao\<close> and
  \<^verbatim>\<open>daos/BookmarkDao\<close> are not among the source files. Section 6: the record store
  supports "lookup by foreign-key pair (userId, postId) for Like/Dislike/Bookmark";
  section 4.1: "each lookup returns either a join record (existence) or an absence
  marker"; "all operations are asynchronous and may fail with a generic store error".
\<close>

definition findUserLikesTuit :: "faults \<Rightarrow> oid \<Rightarrow> oid \<Rightarrow> join_record option dao" where
  "findUserLikesTuit flt uid tid st =
     (if flt (FindUserLikesTuit uid tid) then (Inl StoreFailure, st)
      else (Inr (find_join uid tid (db_likes st)), st))"

definition findUserDislikesTuit :: "faults \<Rightarrow> oid \<Rightarrow> oid \<Rightarrow> join_record option dao" where
  "findUserDislikesTuit flt uid tid st =
     (if flt (FindUserDislikesTuit uid tid) then (Inl StoreFailure, st)
      else (Inr (find_join uid tid (db_dislikes st)), st))"

definition findUserBookmarksTuit :: "faults \<Rightarrow> oid \<Rightarrow> oid \<Rightarrow> join_record option dao" where
  "findUserBookmarksTuit flt uid tid st =
     (if flt (FindUserBookmarksTuit uid tid) then (Inl StoreFailure, st)
      else (Inr (find_join uid tid (db_bookmarks st)), st))"

section \<open>TuitService\<close>

text \<open>
  The \<^verbatim>\<open>forEach\<close> of \<^verbatim>\<open>fetchTuitsForLikesDisLikeOwn\<close>: three lookups per tuit,
  their promises pushed on three arrays. A promise is modelled by its outcome.
\<close>

fun launchLookups ::
  "faults \<Rightarrow> oid \<Rightarrow> tuit list \<Rightarrow> store \<Rightarrow>
   ((error + join_record option) list \<times> (error + join_record option) list \<times>
    (error + join_record option) list) \<times> store" where
  "launchLookups flt userId [] st = (([], [], []), st)"
| "launchLookups flt userId (t # ts) st =
     (let (findLikePromise, st1) = findUserLikesTuit flt userId (t_id t) st;
          (findDislikePromise, st2) = findUserDislikesTuit flt userId (t_id t) st1;
          (findBookmarkPromise, st3) = findUserBookmarksTuit flt userId (t_id t) st2;
          ((ls, ds, bs), st4) = launchLookups flt userId ts st3
      in ((findLikePromise # ls, findDislikePromise # ds, findBookmarkPromise # bs), st4))"

text \<open>\<^verbatim>\<open>await Promise.all(ps)\<close>: the values in order, or the rejection.\<close>

fun promise_all :: "(error + 'a) list \<Rightarrow> error + 'a list" where
  "promise_all [] = Inr []"
| "promise_all (p # ps) =
     (case p of
        Inl e \<Rightarrow> Inl e
      | Inr v \<Rightarrow> (case promise_all ps of Inl e \<Rightarrow> Inl e | Inr vs \<Rightarrow> Inr (v # vs)))"

text \<open>\<^verbatim>\<open>Array.prototype.indexOf\<close>: the first index of a strictly equal element, or -1.\<close>

fun indexOf :: "'a list \<Rightarrow> 'a \<Rightarrow> int" where
  "indexOf [] x = -1"
| "indexOf (y # ys) x =
     (if y = x then 0 else (let i = indexOf ys x in if i < 0 then -1 else i + 1))"

text \<open>
  \<^verbatim>\<open>(l) => { if (l) { return l.tuit.toString(); } }\<close>: the post identifier of a
  record that was found, \<^verbatim>\<open>undefined\<close> (\<open>None\<close>) otherwise.
\<close>

definition tuitIdOf :: "join_record option \<Rightarrow> string option" where
  "tuitIdOf l = (case l of Some r \<Rightarrow> Some (j_tuit r) | None \<Rightarrow> None)"

definition toObject :: "tuit \<Rightarrow> decorated" where
  "toObject t = tuit.extend t
     (decorated.fields None None None None)"

text \<open>
  The callback of \<^verbatim>\<open>tuits.map\<close>. Reading \<^verbatim>\<open>copyT.postedBy._id\<close> of a
  \<^verbatim>\<open>null\<close> author throws a TypeError.
\<close>

definition decorate ::
  "oid \<Rightarrow> string option list \<Rightarrow> string option list \<Rightarrow> string option list \<Rightarrow> tuit \<Rightarrow>
   error + decorated" where
  "decorate userId likedTuitsIds dislikedTuitsIds bookmarkedTuitsIds t =
     (let copyT = toObject t;
          copyT = (if indexOf likedTuitsIds (Some (t_id t)) \<ge> 0
                   then copyT\<lparr>likedByMe := Some True\<rparr> else copyT);
          copyT = (if indexOf dislikedTuitsIds (Some (t_id t)) \<ge> 0
                   then copyT\<lparr>dislikedByMe := Some True\<rparr> else copyT);
          copyT = (if indexOf bookmarkedTuitsIds (Some (t_id t)) \<ge> 0
                   then copyT\<lparr>bookmarkedByMe := Some True\<rparr> else copyT)
      in case postedBy copyT of
           None \<Rightarrow> Inl TypeError
         | Some author \<Rightarrow>
             Inr (if author = userId then copyT\<lparr>ownedByMe := Some True\<rparr> else copyT))"

text \<open>\<^verbatim>\<open>Array.prototype.map\<close> with a callback that may throw: the first throw ends it.\<close>

fun array_map :: "('a \<Rightarrow> error + 'b) \<Rightarrow> 'a list \<Rightarrow> error + 'b list" where
  "array_map f [] = Inr []"
| "array_map f (x # xs) =
     (case f x of
        Inl e \<Rightarrow> Inl e
      | Inr y \<Rightarrow> (case array_map f xs of Inl e \<Rightarrow> Inl e | Inr ys \<Rightarrow> Inr (y # ys)))"

definition fetchTuitsForLikesDisLikeOwn ::
  "faults \<Rightarrow> oid \<Rightarrow> tuit list \<Rightarrow> decorated list dao" where
  "fetchTuitsForLikesDisLikeOwn flt userId tuits st =
     (let ((findLikesPromises, findDislikesPromises, findBookmarksPromises), st') =
            launchLookups flt userId tuits st
      in (case promise_all findLikesPromises of
            Inl e \<Rightarrow> Inl e
          | Inr likedTuits \<Rightarrow>
         (case promise_all findDislikesPromises of
            Inl e \<Rightarrow> Inl e
          | Inr dislikedTuits \<Rightarrow>
         (case promise_all findBookmarksPromises of
            Inl e \<Rightarrow> Inl e
          | Inr bookmarkedTuits \<Rightarrow>
              (let likedTuitsIds = map tuitIdOf likedTuits;
                   dislikedTuitsIds = map tuitIdOf dislikedTuits;
                   bookmarkedTuitsIds = map tuitIdOf bookmarkedTuits
               in array_map
                    (decorate userId likedTuitsIds dislikedTuitsIds bookmarkedTuitsIds)
                    tuits))), st'))"


section \<open>Controllers\<close>

text \<open>
  What a handler reads of the request: the path parameters, the JSON body and the
  profile stored in the session.
\<close>

record request =
  params_uid :: string
  params_tid :: string
  params_username :: string
  body :: user
  session_profile :: "user option"

text \<open>
  What a handler sends: \<^verbatim>\<open>res.sendStatus(n)\<close>, \<^verbatim>\<open>res.json(x)\<close>, or nothing at all
  when a promise it does not catch is rejected.
\<close>

datatype response =
    Status nat
  | Json_user user
  | Json_users "user list"
  | Json_status nat
  | NoResponse error

text \<open>
  \<^verbatim>\<open>await p\<close> or \<^verbatim>\<open>p.then(k)\<close>: the continuation runs on the value; on a
  rejection the handler ends with \<open>rejected e\<close>.
\<close>

definition await ::
  "(error + 'a) \<times> store \<Rightarrow> (error \<Rightarrow> 'r) \<Rightarrow> ('a \<Rightarrow> store \<Rightarrow> 'r \<times> store) \<Rightarrow> 'r \<times> store" where
  "await p rejected k = (case p of (Inl e, st) \<Rightarrow> (rejected e, st) | (Inr v, st) \<Rightarrow> k v st)"

subsection \<open>BookmarkDao and BookmarkController\<close>

text \<open>
  Modelled from the spec: \<^verbatim>\<open>daos/BookmarkDao\<close> is not among the source files.
  Section 6: "create(record); delete(record-or-key)"; section 4.2: "If present: delete
  it, return Absent. If absent: create it, return Present." The controller passes the
  key (userId, tid), so the delete removes what is stored under that key and reports
  how many records it removed.
\<close>

definition userBookmarksTuit :: "faults \<Rightarrow> oid \<Rightarrow> oid \<Rightarrow> join_record dao" where
  "userBookmarksTuit flt uid tid st =
     (if flt (UserBookmarksTuit uid tid) then (Inl StoreFailure, st)
      else (let b = \<lparr>j_user = uid, j_tuit = tid\<rparr>
            in (Inr b, st\<lparr>db_bookmarks := db_bookmarks st @ [b]\<rparr>)))"

definition userUnbookmarksTuit :: "faults \<Rightarrow> oid \<Rightarrow> oid \<Rightarrow> nat dao" where
  "userUnbookmarksTuit flt uid tid st =
     (if flt (UserUnbookmarksTuit uid tid) then (Inl StoreFailure, st)
      else (Inr (length (filter (\<lambda>b. j_user b = uid \<and> j_tuit b = tid) (db_bookmarks st))),
            st\<lparr>db_bookmarks :=
                 filter (\<lambda>b. \<not> (j_user b = uid \<and> j_tuit b = tid)) (db_bookmarks st)\<rparr>))"

text \<open>\<^verbatim>\<open>BookmarkController.userTogglesTuitBookmarks\<close>; the \<^verbatim>\<open>catch\<close> sends 404.\<close>

definition userTogglesTuitBookmarks :: "faults \<Rightarrow> request \<Rightarrow> store \<Rightarrow> response \<times> store" where
  "userTogglesTuitBookmarks flt req st =
     (let uid = params_uid req;
          tid = params_tid req;
          prof = session_profile req;
          userId = (if uid = ''me'' \<and> prof \<noteq> None then u_id (the prof) else uid)
      in await (findUserBookmarksTuit flt userId tid st) (\<lambda>e. Status 404)
           (\<lambda>userAlreadyBookmarkedTuit st1.
              if userAlreadyBookmarkedTuit \<noteq> None
              then await (userUnbookmarksTuit flt userId tid st1) (\<lambda>e. Status 404)
                     (\<lambda>r st2. (Status 200, st2))
              else await (userBookmarksTuit flt userId tid st1) (\<lambda>e. Status 404)
                     (\<lambda>r st2. (Status 200, st2))))"

subsection \<open>Cascading deletes and UserDao\<close>

text \<open>
  Modelled from the spec: \<^verbatim>\<open>daos/TuitDao\<close>, \<^verbatim>\<open>daos/BookmarkDao\<close>,
  \<^verbatim>\<open>daos/DislikeDao\<close>, \<^verbatim>\<open>daos/LikeDao\<close> and \<^verbatim>\<open>daos/UserDao\<close> are not among the
  source files. Section 6: "cascading bulk delete by userId for
  Tuits/Likes/Dislikes/Bookmarks", "point lookup by identifier", "create(record)",
  "delete(record-or-key)"; section 3: a User is "unique by username", looked up by it
  on register. A delete reports how many records it removed.
\<close>

definition deleteAllTuitsByUser :: "faults \<Rightarrow> oid \<Rightarrow> nat dao" where
  "deleteAllTuitsByUser flt uid st =
     (if flt (DeleteAllTuitsByUser uid) then (Inl StoreFailure, st)
      else (Inr (length (filter (\<lambda>t. postedBy t = Some uid) (db_tuits st))),
            st\<lparr>db_tuits := filter (\<lambda>t. postedBy t \<noteq> Some uid) (db_tuits st)\<rparr>))"

definition deleteAllBookmarksByUser :: "faults \<Rightarrow> oid \<Rightarrow> nat dao" where
  "deleteAllBookmarksByUser flt uid st =
     (if flt (DeleteAllBookmarksByUser uid) then (Inl StoreFailure, st)
      else (Inr (length (filter (\<lambda>j. j_user j = uid) (db_bookmarks st))),
            st\<lparr>db_bookmarks := filter (\<lambda>j. j_user j \<noteq> uid) (db_bookmarks st)\<rparr>))"

definition deleteAllDislikesByUser :: "faults \<Rightarrow> oid \<Rightarrow> nat dao" where
  "deleteAllDislikesByUser flt uid st =
     (if flt (DeleteAllDislikesByUser uid) then (Inl StoreFailure, st)
      else (Inr (length (filter (\<lambda>j. j_user j = uid) (db_dislikes st))),
            st\<lparr>db_dislikes := filter (\<lambda>j. j_user j \<noteq> uid) (db_dislikes st)\<rparr>))"

definition deleteAllLikesByUser :: "faults \<Rightarrow> oid \<Rightarrow> nat dao" where
  "deleteAllLikesByUser flt uid st =
     (if flt (DeleteAllLikesByUser uid) then (Inl StoreFailure, st)
      else (Inr (length (filter (\<lambda>j. j_user j = uid) (db_likes st))),
            st\<lparr>db_likes := filter (\<lambda>j. j_user j \<noteq> uid) (db_likes st)\<rparr>))"

definition deleteUser :: "faults \<Rightarrow> oid \<Rightarrow> nat dao" where
  "deleteUser flt uid st =
     (if flt (DeleteUser uid) then (Inl StoreFailure, st)
      else (Inr (length (filter (\<lambda>u. u_id u = uid) (db_users st))),
            st\<lparr>db_users := filter (\<lambda>u. u_id u \<noteq> uid) (db_users st)\<rparr>))"

definition findUserByUsername :: "faults \<Rightarrow> string \<Rightarrow> user option dao" where
  "findUserByUsername flt name st =
     (if flt (FindUserByUsername name) then (Inl StoreFailure, st)
      else (Inr (find (\<lambda>u. username u = name) (db_users st)), st))"

definition findUserById :: "faults \<Rightarrow> oid \<Rightarrow> user option dao" where
  "findUserById flt uid st =
     (if flt (FindUserById uid) then (Inl StoreFailure, st)
      else (Inr (find (\<lambda>u. u_id u = uid) (db_users st)), st))"

definition createUser :: "faults \<Rightarrow> user \<Rightarrow> user dao" where
  "createUser flt u st =
     (if flt (CreateUser u) then (Inl StoreFailure, st)
      else (Inr u, st\<lparr>db_users := db_users st @ [u]\<rparr>))"

subsection \<open>UserController\<close>

text \<open>\<^verbatim>\<open>UserController.adminDeleteUser\<close>. No rejection is caught.\<close>

definition adminDeleteUser :: "faults \<Rightarrow> request \<Rightarrow> store \<Rightarrow> response \<times> store" where
  "adminDeleteUser flt req st =
     (let uid = params_uid req
      in await (deleteAllTuitsByUser flt uid st) NoResponse (\<lambda>r1 st1.
         await (deleteAllBookmarksByUser flt uid st1) NoResponse (\<lambda>r2 st2.
         await (deleteAllDislikesByUser flt uid st2) NoResponse (\<lambda>r3 st3.
         await (deleteAllLikesByUser flt uid st3) NoResponse (\<lambda>r4 st4.
         await (deleteUser flt uid st4) NoResponse (\<lambda>status st5.
           (Json_status status, st5)))))))"







subsection \<open>AuthenticationController\<close>

text \<open>
  The handlers of \<^verbatim>\<open>/api/auth/*\<close> also write the session: they return the response
  together with the session's profile after the call. \<^verbatim>\<open>bcrypt.compare\<close> and
  \<^verbatim>\<open>bcrypt.hash\<close> are parameters.
\<close>

definition login ::
  "faults \<Rightarrow> (string \<Rightarrow> string \<Rightarrow> bool) \<Rightarrow> request \<Rightarrow> store \<Rightarrow>
   (response \<times> user option) \<times> store" where
  "login flt bcrypt_compare req st =
     (let user = body req
      in await (findUserByUsername flt (username user) st)
           (\<lambda>e. (NoResponse e, session_profile req))
           (\<lambda>existingUser st1.
              case existingUser of
                Some found \<Rightarrow>
                  (if bcrypt_compare (password user) (password found)
                   then (let existingUser = found\<lparr>password := ''*****''\<rparr>
                         in ((Json_user existingUser, Some existingUser), st1))
                   else ((Status 403, session_profile req), st1))
              | None \<Rightarrow> ((Status 403, session_profile req), st1)))"

definition signup ::
  "faults \<Rightarrow> (string \<Rightarrow> string) \<Rightarrow> request \<Rightarrow> store \<Rightarrow> (response \<times> user option) \<times> store" where
  "signup flt bcrypt_hash req st =
     (let newUser = (body req)\<lparr>password := bcrypt_hash (password (body req))\<rparr>
      in await (findUserByUsername flt (username newUser) st)
           (\<lambda>e. (NoResponse e, session_profile req))
           (\<lambda>existingUser st1.
              if existingUser \<noteq> None then ((Status 403, session_profile req), st1)
              else await (createUser flt newUser st1)
                     (\<lambda>e. (NoResponse e, session_profile req))
                     (\<lambda>created st2.
                        (let insertedUser = created\<lparr>password := ''*****''\<rparr>
                         in ((Json_user insertedUser, Some insertedUser), st2)))))"

definition profile :: "faults \<Rightarrow> request \<Rightarrow> store \<Rightarrow> (response \<times> user option) \<times> store" where
  "profile flt req st =
     (case session_profile req of
        Some prof \<Rightarrow>
          await (findUserById flt (u_id prof) st)
            (\<lambda>e. (NoResponse e, session_profile req))
            (\<lambda>existingUser st1.
               case existingUser of
                 Some found \<Rightarrow>
                   ((Json_user (found\<lparr>password := ''*****''\<rparr>), session_profile req), st1)
               | None \<Rightarrow> ((Status 403, session_profile req), st1))
      | None \<Rightarrow> ((Status 403, session_profile req), st))"

text \<open>
  \<^verbatim>\<open>AuthenticationController.delete\<close>; \<^verbatim>\<open>req.session.destroy()\<close> leaves no profile.
\<close>

definition delete :: "faults \<Rightarrow> request \<Rightarrow> store \<Rightarrow> (response \<times> user option) \<times> store" where
  "delete flt req st =
     (case session_profile req of
        Some prof \<Rightarrow>
          (let uid = u_id prof;
               rejected = (\<lambda>e. (NoResponse e, session_profile req))
           in await (deleteAllTuitsByUser flt uid st) rejected (\<lambda>r1 st1.
              await (deleteAllBookmarksByUser flt uid st1) rejected (\<lambda>r2 st2.
              await (deleteAllDislikesByUser flt uid st2) rejected (\<lambda>r3 st3.
              await (deleteAllLikesByUser flt uid st3) rejected (\<lambda>r4 st4.
              await (deleteUser flt uid st4) rejected (\<lambda>status st5.
                ((Json_status status, None), st5)))))))
      | None \<Rightarrow> ((Status 403, session_profile req), st))"

section \<open>Notions used in the statements\<close>

text \<open>A Like, Dislike or Bookmark record exists in the store for the pair (user, post).\<close>

definition hasLike :: "store \<Rightarrow> oid \<Rightarrow> oid \<Rightarrow> bool" where
  "hasLike st uid tid = list_ex (\<lambda>l. j_user l = uid \<and> j_tuit l = tid) (db_likes st)"

definition hasDislike :: "store \<Rightarrow> oid \<Rightarrow> oid \<Rightarrow> bool" where
  "hasDislike st uid tid = list_ex (\<lambda>l. j_user l = uid \<and> j_tuit l = tid) (db_dislikes st)"

definition hasBookmark :: "store \<Rightarrow> oid \<Rightarrow> oid \<Rightarrow> bool" where
  "hasBookmark st uid tid = list_ex (\<lambda>l. j_user l = uid \<and> j_tuit l = tid) (db_bookmarks st)"

text \<open>None of the 3N lookups that TuitService issues for these tuits fails.\<close>

definition lookupsSucceed :: "faults \<Rightarrow> oid \<Rightarrow> tuit list \<Rightarrow> bool" where
  "lookupsSucceed flt userId tuits =
     list_all (\<lambda>t. \<not> flt (FindUserLikesTuit userId (t_id t)) \<and>
                   \<not> flt (FindUserDislikesTuit userId (t_id t)) \<and>
                   \<not> flt (FindUserBookmarksTuit userId (t_id t))) tuits"

text \<open>The identifier array that TuitService builds from the lookups on one collection.\<close>

definition foundIds :: "oid \<Rightarrow> join_record list \<Rightarrow> tuit list \<Rightarrow> string option list" where
  "foundIds userId js tuits = map (\<lambda>t. tuitIdOf (find_join userId (t_id t) js)) tuits"

text \<open>The user a toggle request acts for: \<^verbatim>\<open>uid === 'me' && profile ? profile._id : uid\<close>.\<close>

definition toggleUserId :: "request \<Rightarrow> oid" where
  "toggleUserId req =
     (if params_uid req = ''me'' \<and> session_profile req \<noteq> None
      then u_id (the (session_profile req)) else params_uid req)"

text \<open>No tuit of the store is posted by the user and no join record refers to the user.\<close>

definition ownsNothing :: "store \<Rightarrow> oid \<Rightarrow> bool" where
  "ownsNothing st uid \<longleftrightarrow>
     list_all (\<lambda>t. postedBy t \<noteq> Some uid) (db_tuits st) \<and>
     list_all (\<lambda>j. j_user j \<noteq> uid) (db_likes st) \<and>
     list_all (\<lambda>j. j_user j \<noteq> uid) (db_dislikes st) \<and>
     list_all (\<lambda>j. j_user j \<noteq> uid) (db_bookmarks st)"


section \<open>A concrete store\<close>

text \<open>
  The scenario of section 8 of the specification: viewer U1 has liked post P1 and
  bookmarked post P2, and P3 is authored by U1. \<open>orphan\<close> is a post whose author
  reference is \<^verbatim>\<open>null\<close>.
\<close>

definition post1 :: tuit where
  "post1 = \<lparr>t_id = ''P1'', t_tuit = ''first'', postedOn = 1, postedBy = Some ''U2'', stats = []\<rparr>"

definition post2 :: tuit where
  "post2 = \<lparr>t_id = ''P2'', t_tuit = ''second'', postedOn = 2, postedBy = Some ''U2'', stats = []\<rparr>"

definition post3 :: tuit where
  "post3 = \<lparr>t_id = ''P3'', t_tuit = ''third'', postedOn = 3, postedBy = Some ''U1'', stats = []\<rparr>"

definition orphan :: tuit where
  "orphan = \<lparr>t_id = ''P4'', t_tuit = ''fourth'', postedOn = 4, postedBy = None, stats = []\<rparr>"

definition alice :: user where
  "alice = \<lparr>u_id = ''U1'', username = ''alice'', password = ''hash-a'', firstName = ''Alice'',
            lastName = ''A'', email = ''alice@example.org''\<rparr>"

definition bob :: user where
  "bob = \<lparr>u_id = ''U2'', username = ''bob'', password = ''hash-b'', firstName = ''Bob'',
          lastName = ''B'', email = ''bob@example.org''\<rparr>"

definition carol :: user where
  "carol = \<lparr>u_id = ''U3'', username = ''carol'', password = ''secret'', firstName = ''Carol'',
            lastName = ''C'', email = ''carol@example.org''\<rparr>"

definition scenario :: store where
  "scenario = \<lparr>db_users = [alice, bob], db_tuits = [post1, post2, post3],
                db_likes = [\<lparr>j_user = ''U1'', j_tuit = ''P1''\<rparr>],
                db_dislikes = [\<lparr>j_user = ''U2'', j_tuit = ''P3''\<rparr>],
                db_bookmarks = [\<lparr>j_user = ''U1'', j_tuit = ''P2''\<rparr>]\<rparr>"

definition scenario_out :: "decorated list" where
  "scenario_out = [(toObject post1)\<lparr>likedByMe := Some True\<rparr>,
                   (toObject post2)\<lparr>bookmarkedByMe := Some True\<rparr>,
                   (toObject post3)\<lparr>ownedByMe := Some True\<rparr>]"

text \<open>The store fails exactly the Dislike lookup of U1 on P2.\<close>

definition dislike_outage :: faults where
  "dislike_outage = (\<lambda>c. c = FindUserDislikesTuit ''U1'' ''P2'')"

definition request_for :: "string \<Rightarrow> string \<Rightarrow> user \<Rightarrow> user option \<Rightarrow> request" where
  "request_for uid tid b prof =
     \<lparr>params_uid = uid, params_tid = tid, params_username = [], body = b,
      session_profile = prof\<rparr>"

definition toggle_request :: request where
  "toggle_request = request_for ''me'' ''P3'' alice (Some alice)"

definition after_toggle :: store where
  "after_toggle = scenario\<lparr>db_bookmarks :=
     [\<lparr>j_user = ''U1'', j_tuit = ''P2''\<rparr>, \<lparr>j_user = ''U1'', j_tuit = ''P3''\<rparr>]\<rparr>"

definition delete_request :: request where
  "delete_request = request_for ''U1'' [] alice (Some alice)"

definition signup_request :: "user \<Rightarrow> request" where
  "signup_request b = request_for [] [] b None"

definition after_delete :: store where
  "after_delete = \<lparr>db_users = [bob], db_tuits = [post1, post2], db_likes = [],
                    db_dislikes = [\<lparr>j_user = ''U2'', j_tuit = ''P3''\<rparr>], db_bookmarks = []\<rparr>"

text \<open>Stand-ins for \<^verbatim>\<open>bcrypt.hash\<close> and \<^verbatim>\<open>bcrypt.compare\<close> in the examples.\<close>

definition toy_hash :: "string \<Rightarrow> string" where
  "toy_hash pw = ''$2b$'' @ rev pw"

definition toy_compare :: "string \<Rightarrow> string \<Rightarrow> bool" where
  "toy_compare pw h = (h = toy_hash pw)"

definition registered :: store where
  "registered = scenario\<lparr>db_users := [alice, bob, carol\<lparr>password := toy_hash ''secret''\<rparr>]\<rparr>"

text \<open>A search that matches every user, on a store whose users are out of order.\<close>

definition search_all :: "string \<Rightarrow> user list dao" where
  "search_all name st = (Inr (db_users st), st)"

definition unsorted :: store where
  "unsorted = scenario\<lparr>db_users := [carol, alice, bob, alice\<lparr>u_id := ''U9''\<rparr>]\<rparr>"

lemmas scenario_defs = post1_def post2_def post3_def orphan_def alice_def bob_def carol_def
  scenario_def scenario_out_def request_for_def no_faults_def dislike_outage_def
  toggle_request_def after_toggle_def delete_request_def after_delete_def signup_request_def
  toy_hash_def toy_compare_def registered_def search_all_def unsorted_def

lemmas dao_defs = findUserLikesTuit_def findUserDislikesTuit_def findUserBookmarksTuit_def
  find_join_def userBookmarksTuit_def userUnbookmarksTuit_def deleteAllTuitsByUser_def
  deleteAllBookmarksByUser_def deleteAllDislikesByUser_def deleteAllLikesByUser_def
  deleteUser_def findUserByUsername_def findUserById_def createUser_def await_def

lemmas fetch_defs = fetchTuitsForLikesDisLikeOwn_def tuitIdOf_def decorate_def toObject_def
  tuit.defs decorated.defs Let_def

section \<open>Properties of TuitService\<close>

subsection \<open>The building blocks\<close>

lemma launchLookups_eq:
  "launchLookups flt userId ts st =
     ((map (\<lambda>t. fst (findUserLikesTuit flt userId (t_id t) st)) ts,
       map (\<lambda>t. fst (findUserDislikesTuit flt userId (t_id t) st)) ts,
       map (\<lambda>t. fst (findUserBookmarksTuit flt userId (t_id t) st)) ts), st)"
  by (induction ts)
     (simp_all add: findUserLikesTuit_def findUserDislikesTuit_def findUserBookmarksTuit_def)

lemma promise_all_Inr_iff: "promise_all ps = Inr vs \<longleftrightarrow> ps = map Inr vs"
proof (induction ps arbitrary: vs)
  case Nil
  show ?case by auto
next
  case (Cons p ps)
  show ?case
  proof (cases p)
    case (Inl e)
    then show ?thesis by (cases vs) auto
  next
    case (Inr v)
    show ?thesis
    proof (cases "promise_all ps")
      case (Inl e)
      with Cons[of "tl vs"] Inr show ?thesis by (cases vs) auto
    next
      case r: (Inr ws)
      with Cons[of ws] Inr show ?thesis by (cases vs) auto
    qed
  qed
qed

lemma array_map_promise_all: "array_map f xs = promise_all (map f xs)"
  by (induction xs) (simp_all split: sum.splits)

lemma array_map_Inr_iff: "array_map f xs = Inr ys \<longleftrightarrow> map f xs = map Inr ys"
  by (simp add: array_map_promise_all promise_all_Inr_iff)

lemma array_map_returns_iff:
  "(\<exists>ys. array_map f xs = Inr ys) \<longleftrightarrow> (\<forall>x\<in>set xs. \<exists>y. f x = Inr y)"
proof (induction xs)
  case Nil
  show ?case by simp
next
  case (Cons x xs)
  show ?case
  proof (cases "f x")
    case (Inl e)
    then show ?thesis by auto
  next
    case (Inr y)
    with Cons show ?thesis by (cases "array_map f xs") auto
  qed
qed

lemma indexOf_ge0_iff: "indexOf xs x \<ge> 0 \<longleftrightarrow> x \<in> set xs"
  by (induction xs) (auto simp: Let_def)

lemma find_None_ex: "(find P xs = None) = (\<not> list_ex P xs)"
  by (induction xs) auto


lemma find_join_None_iff:
  "find_join uid tid js = None \<longleftrightarrow> \<not> (\<exists>j\<in>set js. j_user j = uid \<and> j_tuit j = tid)"
  by (auto simp: find_join_def find_None_iff)

lemma find_join_Some:
  "find_join uid tid js = Some r \<Longrightarrow> r \<in> set js \<and> j_user r = uid \<and> j_tuit r = tid"
  by (auto simp: find_join_def find_Some_iff)

lemma toObject_simps:
  "t_id (toObject t) = t_id t" "t_tuit (toObject t) = t_tuit t"
  "postedOn (toObject t) = postedOn t" "postedBy (toObject t) = postedBy t"
  "stats (toObject t) = stats t"
  "likedByMe (toObject t) = None" "dislikedByMe (toObject t) = None"
  "bookmarkedByMe (toObject t) = None" "ownedByMe (toObject t) = None"
  "tuit.truncate (toObject t) = t"
  by (simp_all add: toObject_def tuit.defs decorated.defs)

lemma truncate_flag_update:
  "tuit.truncate (d\<lparr>likedByMe := a\<rparr>) = tuit.truncate d"
  "tuit.truncate (d\<lparr>dislikedByMe := a\<rparr>) = tuit.truncate d"
  "tuit.truncate (d\<lparr>bookmarkedByMe := a\<rparr>) = tuit.truncate d"
  "tuit.truncate (d\<lparr>ownedByMe := a\<rparr>) = tuit.truncate d"
  by (simp_all add: tuit.defs)

text \<open>What the callback of \<^verbatim>\<open>tuits.map\<close> returns, when it returns.\<close>

lemma decorate_Inr:
  assumes "decorate userId L D B t = Inr d"
  shows "likedByMe d = (if Some (t_id t) \<in> set L then Some True else None)"
    and "dislikedByMe d = (if Some (t_id t) \<in> set D then Some True else None)"
    and "bookmarkedByMe d = (if Some (t_id t) \<in> set B then Some True else None)"
    and "ownedByMe d = (if postedBy t = Some userId then Some True else None)"
    and "tuit.truncate d = t"
  using assms
  by (auto simp: decorate_def Let_def indexOf_ge0_iff toObject_simps truncate_flag_update
        split: option.splits if_splits)

lemma decorate_returns_iff:
  "(\<exists>d. decorate userId L D B t = Inr d) \<longleftrightarrow> postedBy t \<noteq> None"
  by (auto simp: decorate_def Let_def toObject_simps split: option.splits)

lemma likes_all:
  "promise_all (map (\<lambda>t. fst (findUserLikesTuit flt userId (t_id t) st)) tuits) =
     (if list_all (\<lambda>t. \<not> flt (FindUserLikesTuit userId (t_id t))) tuits
      then Inr (map (\<lambda>t. find_join userId (t_id t) (db_likes st)) tuits)
      else Inl StoreFailure)"
  by (induction tuits) (auto simp: findUserLikesTuit_def)

lemma dislikes_all:
  "promise_all (map (\<lambda>t. fst (findUserDislikesTuit flt userId (t_id t) st)) tuits) =
     (if list_all (\<lambda>t. \<not> flt (FindUserDislikesTuit userId (t_id t))) tuits
      then Inr (map (\<lambda>t. find_join userId (t_id t) (db_dislikes st)) tuits)
      else Inl StoreFailure)"
  by (induction tuits) (auto simp: findUserDislikesTuit_def)

lemma bookmarks_all:
  "promise_all (map (\<lambda>t. fst (findUserBookmarksTuit flt userId (t_id t) st)) tuits) =
     (if list_all (\<lambda>t. \<not> flt (FindUserBookmarksTuit userId (t_id t))) tuits
      then Inr (map (\<lambda>t. find_join userId (t_id t) (db_bookmarks st)) tuits)
      else Inl StoreFailure)"
  by (induction tuits) (auto simp: findUserBookmarksTuit_def)

lemma lookupsSucceed_conj:
  "lookupsSucceed flt userId tuits \<longleftrightarrow>
     list_all (\<lambda>t. \<not> flt (FindUserLikesTuit userId (t_id t))) tuits \<and>
     list_all (\<lambda>t. \<not> flt (FindUserDislikesTuit userId (t_id t))) tuits \<and>
     list_all (\<lambda>t. \<not> flt (FindUserBookmarksTuit userId (t_id t))) tuits"
  by (auto simp: lookupsSucceed_def list_all_iff)

text \<open>
  The whole call in one equation: the three barriers fail together or not at all, and
  the store comes back as it was.
\<close>

lemma fetchTuits_eq:
  "fetchTuitsForLikesDisLikeOwn flt userId tuits st =
     (if lookupsSucceed flt userId tuits
      then array_map (decorate userId (foundIds userId (db_likes st) tuits)
                        (foundIds userId (db_dislikes st) tuits)
                        (foundIds userId (db_bookmarks st) tuits)) tuits
      else Inl StoreFailure, st)"
  by (simp add: fetchTuitsForLikesDisLikeOwn_def launchLookups_eq likes_all dislikes_all
        bookmarks_all lookupsSucceed_conj foundIds_def comp_def)

lemma snd_fetchTuits: "snd (fetchTuitsForLikesDisLikeOwn flt userId tuits st) = st"
  by (simp add: fetchTuits_eq)

text \<open>
  The identifier of a tuit of the list is among the collected identifiers exactly when
  the store holds a record for the viewer and that tuit.
\<close>

lemma foundIds_mem:
  assumes "t \<in> set tuits"
  shows "Some (t_id t) \<in> set (foundIds userId js tuits) \<longleftrightarrow>
         (\<exists>j\<in>set js. j_user j = userId \<and> j_tuit j = t_id t)"
proof
  assume "Some (t_id t) \<in> set (foundIds userId js tuits)"
  then obtain t' :: tuit where "tuitIdOf (find_join userId (t_id t') js) = Some (t_id t)"
    by (auto simp: foundIds_def)
  then obtain r where "find_join userId (t_id t') js = Some r" "j_tuit r = t_id t"
    by (auto simp: tuitIdOf_def split: option.splits)
  then show "\<exists>j\<in>set js. j_user j = userId \<and> j_tuit j = t_id t"
    using find_join_Some by blast
next
  assume "\<exists>j\<in>set js. j_user j = userId \<and> j_tuit j = t_id t"
  then obtain r where r: "find_join userId (t_id t) js = Some r"
    using find_join_None_iff[of userId "t_id t" js]
    by (cases "find_join userId (t_id t) js") auto
  then have "j_tuit r = t_id t" using find_join_Some by blast
  with r have "tuitIdOf (find_join userId (t_id t) js) = Some (t_id t)"
    by (simp add: tuitIdOf_def)
  with assms show "Some (t_id t) \<in> set (foundIds userId js tuits)"
    by (force simp: foundIds_def)
qed

lemma fetchTuits_Inr_nth:
  assumes "fetchTuitsForLikesDisLikeOwn flt userId tuits st = (Inr out, st')"
  shows "length out = length tuits"
    and "i < length tuits \<Longrightarrow>
         decorate userId (foundIds userId (db_likes st) tuits)
           (foundIds userId (db_dislikes st) tuits)
           (foundIds userId (db_bookmarks st) tuits) (tuits ! i) = Inr (out ! i)"
proof -
  from assms have m: "map (decorate userId (foundIds userId (db_likes st) tuits)
           (foundIds userId (db_dislikes st) tuits)
           (foundIds userId (db_bookmarks st) tuits)) tuits = map Inr out"
    by (auto simp: fetchTuits_eq array_map_Inr_iff split: if_splits)
  then show len: "length out = length tuits" by (metis length_map)
  show "i < length tuits \<Longrightarrow>
         decorate userId (foundIds userId (db_likes st) tuits)
           (foundIds userId (db_dislikes st) tuits)
           (foundIds userId (db_bookmarks st) tuits) (tuits ! i) = Inr (out ! i)"
    using m len by (metis nth_map)
qed

text \<open>
  When the call returns, the output has one decorated post per input post, in the
  input's order, each with the fields of its input.
\<close>

lemma fetchTuits_order_preserved:
  assumes "fetchTuitsForLikesDisLikeOwn flt userId tuits st = (Inr out, st')"
  shows "map tuit.truncate out = tuits"
proof (rule nth_equalityI)
  show "length (map tuit.truncate out) = length tuits"
    using fetchTuits_Inr_nth(1)[OF assms] by simp
next
  fix i assume "i < length (map tuit.truncate out)"
  then have i: "i < length tuits" using fetchTuits_Inr_nth(1)[OF assms] by simp
  from decorate_Inr(5)[OF fetchTuits_Inr_nth(2)[OF assms i]] i fetchTuits_Inr_nth(1)[OF assms]
  show "map tuit.truncate out ! i = tuits ! i" by simp
qed

text \<open>
  The call returns exactly when no lookup fails and every post has an author
  reference.
\<close>

lemma fetchTuits_returns_iff:
  "(\<exists>out. fst (fetchTuitsForLikesDisLikeOwn flt userId tuits st) = Inr out) \<longleftrightarrow>
     lookupsSucceed flt userId tuits \<and> list_all (\<lambda>t. postedBy t \<noteq> None) tuits"
  by (simp add: fetchTuits_eq array_map_returns_iff decorate_returns_iff list_all_iff)

text \<open>One post without an author reference is enough for the whole call to raise.\<close>

lemma fetchTuits_null_author_raises:
  assumes "t \<in> set tuits" and "postedBy t = None"
  shows "\<exists>e. fetchTuitsForLikesDisLikeOwn flt userId tuits st = (Inl e, st)"
proof -
  from assms have "\<not> list_all (\<lambda>t. postedBy t \<noteq> None) tuits"
    by (auto simp: list_all_iff)
  then have "\<not> (\<exists>out. fst (fetchTuitsForLikesDisLikeOwn flt userId tuits st) = Inr out)"
    by (simp add: fetchTuits_returns_iff)
  then obtain e where "fst (fetchTuitsForLikesDisLikeOwn flt userId tuits st) = Inl e"
    by (cases "fst (fetchTuitsForLikesDisLikeOwn flt userId tuits st)") auto
  then show ?thesis
    using snd_fetchTuits[of flt userId tuits st] by (metis prod.collapse)
qed

lemma scenario_fetchTuits:
  "fetchTuitsForLikesDisLikeOwn no_faults ''U1'' [post1, post2, post3] scenario
     = (Inr scenario_out, scenario)"
  by (simp add: fetch_defs dao_defs scenario_defs)

subsection \<open>Flag correctness\<close>

text \<open>
  Claim C1. Whenever \<open>fetchTuitsForLikesDisLikeOwn\<close> returns for a viewer and a list of
  posts, the decorated output at every position carries \<open>likedByMe = true\<close> exactly when
  the store holds a Like record for the viewer and that post, \<open>dislikedByMe = true\<close>
  exactly when it holds a Dislike record, \<open>bookmarkedByMe = true\<close> exactly when it holds
  a Bookmark record, and \<open>ownedByMe = true\<close> exactly when the identifier of the post's
  author equals the identifier of the viewer. A flag that is not set is absent; a post
  with no join record for the viewer and another author carries none of the four.
\<close>

theorem fetchTuits_flag_correctness:
  assumes "fetchTuitsForLikesDisLikeOwn flt userId tuits st = (Inr out, st')"
    and "i < length tuits"
  shows "length out = length tuits \<and>
         likedByMe (out ! i) =
           (if hasLike st userId (t_id (tuits ! i)) then Some True else None) \<and>
         dislikedByMe (out ! i) =
           (if hasDislike st userId (t_id (tuits ! i)) then Some True else None) \<and>
         bookmarkedByMe (out ! i) =
           (if hasBookmark st userId (t_id (tuits ! i)) then Some True else None) \<and>
         ownedByMe (out ! i) =
           (if postedBy (tuits ! i) = Some userId then Some True else None)"
proof -
  let ?t = "tuits ! i"
  from assms(2) have mem: "?t \<in> set tuits" by simp
  note d = fetchTuits_Inr_nth(2)[OF assms]
  show ?thesis
    using fetchTuits_Inr_nth(1)[OF assms(1)] decorate_Inr(1-4)[OF d]
    by (simp add: foundIds_mem[OF mem] hasLike_def hasDislike_def hasBookmark_def list_ex_iff)
qed

theorem fetchTuits_flag_correctness_witness:
  "fetchTuitsForLikesDisLikeOwn no_faults ''U1'' [post1, post2, post3] scenario
     = (Inr scenario_out, scenario) \<and>
   (0::nat) < length [post1, post2, post3] \<and>
   length scenario_out = length [post1, post2, post3] \<and>
   likedByMe (scenario_out ! 0) = Some True \<and>
   dislikedByMe (scenario_out ! 0) = None \<and>
   bookmarkedByMe (scenario_out ! 0) = None \<and>
   ownedByMe (scenario_out ! 0) = None"
proof -
  have l: "(0::nat) < length [post1, post2, post3]" by simp
  from fetchTuits_flag_correctness[OF scenario_fetchTuits l] scenario_fetchTuits
  show ?thesis
    by (simp add: hasLike_def hasDislike_def hasBookmark_def scenario_defs)
qed

subsection \<open>Posts without an author\<close>

text \<open>
  Claim C2. For every viewer and every input sequence of N posts, posts with a
  \<^verbatim>\<open>null\<close> author reference included, the call should return N decorated posts in
  the input's order. The code does not: of the three posts below the second has no
  author, and the call raises a TypeError instead of returning three decorated posts.
  (\<open>fetchTuits_order_preserved\<close> is the part that holds: whenever the call returns, the
  output is the input, post by post, with flags added.)
\<close>

theorem fetchTuits_null_author_loses_all:
  "fetchTuitsForLikesDisLikeOwn no_faults ''U1'' [post1, orphan, post3] scenario
     = (Inl TypeError, scenario)"
  by (simp add: fetch_defs dao_defs scenario_defs)

text \<open>
  Claim C3. For a post whose \<open>postedBy\<close> is \<^verbatim>\<open>null\<close> the call should not raise, and
  should return the post decorated without \<open>ownedByMe\<close>. The code reads
  \<^verbatim>\<open>copyT.postedBy._id\<close> unguarded: on the single post \<open>orphan\<close> the call raises a
  TypeError and returns nothing.
\<close>

theorem fetchTuits_null_author_TypeError:
  "fetchTuitsForLikesDisLikeOwn no_faults ''U1'' [orphan] scenario = (Inl TypeError, scenario)"
  by (simp add: fetch_defs dao_defs scenario_defs)

subsection \<open>Store failures\<close>

text \<open>
  Claim C4. If one of the lookups issued for the posts of the list fails, be it the
  Like, the Dislike or the Bookmark lookup of a single post, the whole call fails with
  the store's error: no decorated post is returned, and the failed lookup is not read
  as an absent record.
\<close>

theorem fetchTuits_all_or_nothing:
  assumes "t \<in> set tuits"
    and "flt (FindUserLikesTuit userId (t_id t)) \<or>
         flt (FindUserDislikesTuit userId (t_id t)) \<or>
         flt (FindUserBookmarksTuit userId (t_id t))"
  shows "fetchTuitsForLikesDisLikeOwn flt userId tuits st = (Inl StoreFailure, st)"
proof -
  from assms have "\<not> lookupsSucceed flt userId tuits"
    by (auto simp: lookupsSucceed_def list_all_iff)
  then show ?thesis by (simp add: fetchTuits_eq)
qed

theorem fetchTuits_all_or_nothing_witness:
  "post2 \<in> set [post1, post2, post3] \<and>
   dislike_outage (FindUserDislikesTuit ''U1'' (t_id post2)) \<and>
   \<not> dislike_outage (FindUserLikesTuit ''U1'' (t_id post2)) \<and>
   \<not> dislike_outage (FindUserBookmarksTuit ''U1'' (t_id post2)) \<and>
   fetchTuitsForLikesDisLikeOwn dislike_outage ''U1'' [post1, post2, post3] scenario
     = (Inl StoreFailure, scenario)"
proof -
  have m: "post2 \<in> set [post1, post2, post3]" by simp
  have f: "dislike_outage (FindUserLikesTuit ''U1'' (t_id post2)) \<or>
           dislike_outage (FindUserDislikesTuit ''U1'' (t_id post2)) \<or>
           dislike_outage (FindUserBookmarksTuit ''U1'' (t_id post2))"
    by (simp add: post2_def dislike_outage_def)
  from fetchTuits_all_or_nothing[OF m f, of scenario] m show ?thesis
    by (simp add: post2_def dislike_outage_def)
qed

subsection \<open>No side effects\<close>

text \<open>
  Claim C5. The call has no side effect. The store it leaves is the store it was given,
  whatever the outcome: every User, Tuit, Like, Dislike and Bookmark record is
  unchanged, so no flag is ever written back to a stored post. When the call returns,
  every decorated post is a copy that carries exactly the fields of its input post
  beside the flags.
\<close>

theorem fetchTuits_no_side_effects:
  "snd (fetchTuitsForLikesDisLikeOwn flt userId tuits st) = st \<and>
   (\<forall>out. fst (fetchTuitsForLikesDisLikeOwn flt userId tuits st) = Inr out \<longrightarrow>
      map tuit.truncate out = tuits)"
proof (intro conjI allI impI)
  show "snd (fetchTuitsForLikesDisLikeOwn flt userId tuits st) = st"
    by (rule snd_fetchTuits)
next
  fix out assume "fst (fetchTuitsForLikesDisLikeOwn flt userId tuits st) = Inr out"
  then have "fetchTuitsForLikesDisLikeOwn flt userId tuits st = (Inr out, st)"
    using snd_fetchTuits[of flt userId tuits st] by (metis prod.collapse)
  then show "map tuit.truncate out = tuits" by (rule fetchTuits_order_preserved)
qed

theorem fetchTuits_no_side_effects_witness:
  "snd (fetchTuitsForLikesDisLikeOwn no_faults ''U1'' [post1, post2, post3] scenario) = scenario \<and>
   fst (fetchTuitsForLikesDisLikeOwn no_faults ''U1'' [post1, post2, post3] scenario)
     = Inr scenario_out \<and>
   map tuit.truncate scenario_out = [post1, post2, post3]"
proof -
  have h: "fst (fetchTuitsForLikesDisLikeOwn no_faults ''U1'' [post1, post2, post3] scenario)
             = Inr scenario_out"
    by (simp add: scenario_fetchTuits)
  from fetchTuits_no_side_effects[of no_faults "''U1''" "[post1, post2, post3]" scenario] h
  show ?thesis by simp
qed

section \<open>Properties of the controllers\<close>

subsection \<open>Toggling a bookmark\<close>

lemma find_join_hasBookmark:
  "(find_join uid tid (db_bookmarks st) = None) = (\<not> hasBookmark st uid tid)"
  by (simp add: find_join_def hasBookmark_def find_None_ex)

lemma toggle_unfold:
  "userTogglesTuitBookmarks flt req st =
     await (findUserBookmarksTuit flt (toggleUserId req) (params_tid req) st) (\<lambda>e. Status 404)
       (\<lambda>userAlreadyBookmarkedTuit st1.
          if userAlreadyBookmarkedTuit \<noteq> None
          then await (userUnbookmarksTuit flt (toggleUserId req) (params_tid req) st1)
                 (\<lambda>e. Status 404) (\<lambda>r st2. (Status 200, st2))
          else await (userBookmarksTuit flt (toggleUserId req) (params_tid req) st1)
                 (\<lambda>e. Status 404) (\<lambda>r st2. (Status 200, st2)))"
  unfolding userTogglesTuitBookmarks_def toggleUserId_def Let_def by (rule refl)

text \<open>With a working store the toggle answers 200 and deletes or creates.\<close>

lemma toggle_eq:
  assumes "\<not> flt (FindUserBookmarksTuit (toggleUserId req) (params_tid req))"
    and "\<not> flt (UserBookmarksTuit (toggleUserId req) (params_tid req))"
    and "\<not> flt (UserUnbookmarksTuit (toggleUserId req) (params_tid req))"
  shows "userTogglesTuitBookmarks flt req st =
     (Status 200,
      if hasBookmark st (toggleUserId req) (params_tid req)
      then st\<lparr>db_bookmarks :=
                filter (\<lambda>b. \<not> (j_user b = toggleUserId req \<and> j_tuit b = params_tid req))
                  (db_bookmarks st)\<rparr>
      else st\<lparr>db_bookmarks :=
                db_bookmarks st @ [\<lparr>j_user = toggleUserId req, j_tuit = params_tid req\<rparr>]\<rparr>)"
proof (cases "find_join (toggleUserId req) (params_tid req) (db_bookmarks st)")
  case None
  with assms find_join_hasBookmark[of "toggleUserId req" "params_tid req" st] show ?thesis
    by (simp add: toggle_unfold await_def findUserBookmarksTuit_def userBookmarksTuit_def
          Let_def)
next
  case (Some b)
  with assms find_join_hasBookmark[of "toggleUserId req" "params_tid req" st] show ?thesis
    by (simp add: toggle_unfold await_def findUserBookmarksTuit_def userUnbookmarksTuit_def)
qed

text \<open>A toggle that does not answer 200 answered 404 and left the store alone.\<close>

lemma toggle_failure:
  "fst (userTogglesTuitBookmarks flt req st) = Status 200 \<or>
   userTogglesTuitBookmarks flt req st = (Status 404, st)"
  by (simp add: userTogglesTuitBookmarks_def Let_def await_def findUserBookmarksTuit_def
        userUnbookmarksTuit_def userBookmarksTuit_def)

text \<open>
  Claim C6. For every user, post and store, when the store serves the calls of the
  toggle, the toggle answers 200 and flips the membership of the pair: a bookmark that
  was present is absent afterwards and one that was absent is present. Two toggles in
  a row for the same pair bring the membership back to what it was at the start.
\<close>

theorem toggle_round_trip:
  assumes "\<not> flt (FindUserBookmarksTuit (toggleUserId req) (params_tid req))"
    and "\<not> flt (UserBookmarksTuit (toggleUserId req) (params_tid req))"
    and "\<not> flt (UserUnbookmarksTuit (toggleUserId req) (params_tid req))"
    and "userTogglesTuitBookmarks flt req st = (rsp1, st1)"
    and "userTogglesTuitBookmarks flt req st1 = (rsp2, st2)"
  shows "rsp1 = Status 200 \<and> rsp2 = Status 200 \<and>
         hasBookmark st1 (toggleUserId req) (params_tid req) =
           (\<not> hasBookmark st (toggleUserId req) (params_tid req)) \<and>
         hasBookmark st2 (toggleUserId req) (params_tid req) =
           hasBookmark st (toggleUserId req) (params_tid req)"
proof -
  have flip: "hasBookmark (snd (userTogglesTuitBookmarks flt req s)) (toggleUserId req)
                (params_tid req) = (\<not> hasBookmark s (toggleUserId req) (params_tid req))" for s
    by (simp add: toggle_eq[OF assms(1-3)]) (auto simp: hasBookmark_def list_ex_iff)
  have ok: "fst (userTogglesTuitBookmarks flt req s) = Status 200" for s
    by (simp add: toggle_eq[OF assms(1-3)])
  from flip[of st] flip[of st1] ok[of st] ok[of st1] assms(4,5) show ?thesis by simp
qed

theorem toggle_round_trip_witness:
  "\<not> no_faults (FindUserBookmarksTuit (toggleUserId toggle_request) (params_tid toggle_request)) \<and>
   \<not> no_faults (UserBookmarksTuit (toggleUserId toggle_request) (params_tid toggle_request)) \<and>
   \<not> no_faults (UserUnbookmarksTuit (toggleUserId toggle_request) (params_tid toggle_request)) \<and>
   userTogglesTuitBookmarks no_faults toggle_request scenario = (Status 200, after_toggle) \<and>
   userTogglesTuitBookmarks no_faults toggle_request after_toggle = (Status 200, scenario) \<and>
   toggleUserId toggle_request = ''U1'' \<and>
   params_tid toggle_request = ''P3'' \<and>
   hasBookmark scenario ''U1'' ''P3'' = False \<and>
   hasBookmark after_toggle ''U1'' ''P3'' = True"
proof -
  have f:
    "\<not> no_faults (FindUserBookmarksTuit (toggleUserId toggle_request) (params_tid toggle_request))"
    "\<not> no_faults (UserBookmarksTuit (toggleUserId toggle_request) (params_tid toggle_request))"
    "\<not> no_faults (UserUnbookmarksTuit (toggleUserId toggle_request) (params_tid toggle_request))"
    by (simp_all add: no_faults_def)
  have t1: "userTogglesTuitBookmarks no_faults toggle_request scenario = (Status 200, after_toggle)"
    by (simp add: userTogglesTuitBookmarks_def Let_def dao_defs scenario_defs)
  have t2: "userTogglesTuitBookmarks no_faults toggle_request after_toggle = (Status 200, scenario)"
    by (simp add: userTogglesTuitBookmarks_def Let_def dao_defs scenario_defs)
  have u: "toggleUserId toggle_request = ''U1''" "params_tid toggle_request = ''P3''"
    by (simp_all add: toggleUserId_def scenario_defs)
  from toggle_round_trip[OF f t1 t2] f t1 t2 u show ?thesis
    by (simp add: hasBookmark_def scenario_defs)
qed

subsection \<open>Deleting a user\<close>

lemma adminDeleteUser_completes:
  assumes "adminDeleteUser flt req st = (Json_status n, st')"
  shows "st' = st\<lparr>db_tuits := filter (\<lambda>t. postedBy t \<noteq> Some (params_uid req)) (db_tuits st),
                 db_bookmarks := filter (\<lambda>j. j_user j \<noteq> params_uid req) (db_bookmarks st),
                 db_dislikes := filter (\<lambda>j. j_user j \<noteq> params_uid req) (db_dislikes st),
                 db_likes := filter (\<lambda>j. j_user j \<noteq> params_uid req) (db_likes st),
                 db_users := filter (\<lambda>u. u_id u \<noteq> params_uid req) (db_users st)\<rparr>"
  using assms
  by (simp add: adminDeleteUser_def Let_def await_def deleteAllTuitsByUser_def
        deleteAllBookmarksByUser_def deleteAllDislikesByUser_def deleteAllLikesByUser_def
        deleteUser_def split: if_splits)

lemma delete_completes:
  assumes "delete flt req st = ((Json_status n, sess), st')"
  shows "\<exists>p. session_profile req = Some p \<and> sess = None \<and>
          st' = st\<lparr>db_tuits := filter (\<lambda>t. postedBy t \<noteq> Some (u_id p)) (db_tuits st),
                 db_bookmarks := filter (\<lambda>j. j_user j \<noteq> u_id p) (db_bookmarks st),
                 db_dislikes := filter (\<lambda>j. j_user j \<noteq> u_id p) (db_dislikes st),
                 db_likes := filter (\<lambda>j. j_user j \<noteq> u_id p) (db_likes st),
                 db_users := filter (\<lambda>u. u_id u \<noteq> u_id p) (db_users st)\<rparr>"
  using assms
  by (cases "session_profile req")
     (simp_all add: delete_def Let_def await_def deleteAllTuitsByUser_def
        deleteAllBookmarksByUser_def deleteAllDislikesByUser_def deleteAllLikesByUser_def
        deleteUser_def split: if_splits)

text \<open>With a working store the deletion completes.\<close>

lemma adminDeleteUser_no_faults:
  "\<exists>n. fst (adminDeleteUser no_faults req st) = Json_status n"
  by (simp add: adminDeleteUser_def Let_def await_def deleteAllTuitsByUser_def
        deleteAllBookmarksByUser_def deleteAllDislikesByUser_def deleteAllLikesByUser_def
        deleteUser_def no_faults_def)

lemma delete_no_faults:
  "session_profile req = Some p \<Longrightarrow> \<exists>n. fst (fst (delete no_faults req st)) = Json_status n"
  by (simp add: delete_def Let_def await_def deleteAllTuitsByUser_def
        deleteAllBookmarksByUser_def deleteAllDislikesByUser_def deleteAllLikesByUser_def
        deleteUser_def no_faults_def)

text \<open>
  Claim C7. When the deletion of a user completes, by \<open>adminDeleteUser\<close> for the user of
  the path or by the session-based \<open>delete\<close> for the user of the session, the store
  holds no post authored by that user and no Like, Dislike or Bookmark record whose
  user reference is that user.
\<close>

theorem cascading_delete:
  "(adminDeleteUser flt req st = (Json_status n, st') \<longrightarrow> ownsNothing st' (params_uid req)) \<and>
   (delete flt req st = ((Json_status n, sess), st') \<longrightarrow>
      (\<exists>p. session_profile req = Some p \<and> ownsNothing st' (u_id p)))"
proof (intro conjI impI)
  assume "adminDeleteUser flt req st = (Json_status n, st')"
  from adminDeleteUser_completes[OF this] show "ownsNothing st' (params_uid req)"
    by (simp add: ownsNothing_def list_all_iff)
next
  assume "delete flt req st = ((Json_status n, sess), st')"
  from delete_completes[OF this]
  show "\<exists>p. session_profile req = Some p \<and> ownsNothing st' (u_id p)"
    by (auto simp: ownsNothing_def list_all_iff)
qed

theorem cascading_delete_witness:
  "adminDeleteUser no_faults delete_request scenario = (Json_status 1, after_delete) \<and>
   ownsNothing after_delete (params_uid delete_request) \<and>
   delete no_faults delete_request scenario = ((Json_status 1, None), after_delete) \<and>
   session_profile delete_request = Some alice \<and>
   ownsNothing after_delete (u_id alice)"
proof -
  have a: "adminDeleteUser no_faults delete_request scenario = (Json_status 1, after_delete)"
    by (simp add: adminDeleteUser_def Let_def dao_defs scenario_defs)
  have d: "delete no_faults delete_request scenario = ((Json_status 1, None), after_delete)"
    by (simp add: delete_def Let_def dao_defs scenario_defs)
  have s: "session_profile delete_request = Some alice"
    by (simp add: scenario_defs)
  from cascading_delete[of no_faults delete_request scenario 1 after_delete None] a d s
  show ?thesis by simp
qed

subsection \<open>Duplicate usernames\<close>




subsection \<open>Masked passwords\<close>

text \<open>
  Claim C9. Whenever \<open>login\<close>, \<open>signup\<close> or \<open>profile\<close> of the authentication controller
  answers with a user, the password of that user is the string of five asterisks, and
  the user is a stored user in which only the password was overwritten: the stored
  hash is not in the response.
\<close>

theorem password_masked:
  "(fst (fst (login flt bcrypt_compare req st)) = Json_user u \<longrightarrow>
      password u = ''*****'' \<and>
      list_ex (\<lambda>s. u = s\<lparr>password := ''*****''\<rparr>)
        (db_users (snd (login flt bcrypt_compare req st)))) \<and>
   (fst (fst (signup flt bcrypt_hash req st)) = Json_user u \<longrightarrow>
      password u = ''*****'' \<and>
      list_ex (\<lambda>s. u = s\<lparr>password := ''*****''\<rparr>)
        (db_users (snd (signup flt bcrypt_hash req st)))) \<and>
   (fst (fst (profile flt req st)) = Json_user u \<longrightarrow>
      password u = ''*****'' \<and>
      list_ex (\<lambda>s. u = s\<lparr>password := ''*****''\<rparr>) (db_users (snd (profile flt req st))))"
proof (intro conjI impI)
  assume "fst (fst (login flt bcrypt_compare req st)) = Json_user u"
  then obtain s where "find (\<lambda>x. username x = username (body req)) (db_users st) = Some s"
      and "u = s\<lparr>password := ''*****''\<rparr>" and "snd (login flt bcrypt_compare req st) = st"
    by (auto simp: login_def Let_def await_def findUserByUsername_def
          split: option.splits if_splits)
  then show "password u = ''*****''"
    and "list_ex (\<lambda>s. u = s\<lparr>password := ''*****''\<rparr>)
           (db_users (snd (login flt bcrypt_compare req st)))"
    by (auto simp: list_ex_iff find_Some_iff)
next
  assume "fst (fst (signup flt bcrypt_hash req st)) = Json_user u"
  then have
    "u = (body req)\<lparr>password := bcrypt_hash (password (body req))\<rparr>\<lparr>password := ''*****''\<rparr>"
    and "db_users (snd (signup flt bcrypt_hash req st)) =
         db_users st @ [(body req)\<lparr>password := bcrypt_hash (password (body req))\<rparr>]"
    by (auto simp: signup_def Let_def await_def findUserByUsername_def createUser_def
          split: option.splits if_splits)
  then show "password u = ''*****''"
    and "list_ex (\<lambda>s. u = s\<lparr>password := ''*****''\<rparr>)
           (db_users (snd (signup flt bcrypt_hash req st)))"
    by (simp_all add: list_ex_iff)
next
  assume "fst (fst (profile flt req st)) = Json_user u"
  then obtain p s where "session_profile req = Some p"
      and "find (\<lambda>x. u_id x = u_id p) (db_users st) = Some s"
      and "u = s\<lparr>password := ''*****''\<rparr>" and "snd (profile flt req st) = st"
    by (auto simp: profile_def Let_def await_def findUserById_def
          split: option.splits if_splits)
  then show "password u = ''*****''"
    and "list_ex (\<lambda>s. u = s\<lparr>password := ''*****''\<rparr>) (db_users (snd (profile flt req st)))"
    by (auto simp: list_ex_iff find_Some_iff)
qed

theorem password_masked_witness:
  "fst (fst (login no_faults toy_compare (signup_request carol) registered))
     = Json_user (carol\<lparr>password := ''*****''\<rparr>) \<and>
   fst (fst (signup no_faults toy_hash (signup_request carol) scenario))
     = Json_user (carol\<lparr>password := ''*****''\<rparr>) \<and>
   fst (fst (profile no_faults (request_for [] [] carol (Some carol)) registered))
     = Json_user (carol\<lparr>password := ''*****''\<rparr>) \<and>
   password (carol\<lparr>password := ''*****''\<rparr>) = ''*****''"
proof -
  let ?u = "carol\<lparr>password := ''*****''\<rparr>"
  have l: "fst (fst (login no_faults toy_compare (signup_request carol) registered))
             = Json_user ?u"
    by (simp add: login_def Let_def dao_defs scenario_defs)
  have s: "fst (fst (signup no_faults toy_hash (signup_request carol) scenario)) = Json_user ?u"
    by (simp add: signup_def Let_def dao_defs scenario_defs)
  have p: "fst (fst (profile no_faults (request_for [] [] carol (Some carol)) registered))
             = Json_user ?u"
    by (simp add: profile_def Let_def dao_defs scenario_defs)
  from password_masked[of no_faults toy_compare "signup_request carol" registered ?u toy_hash]
       l s p
  show ?thesis by simp
qed

subsection \<open>Searching by username\<close>








end
